theory Spec2Isabelle
  imports Main
begin

section \<open>JavaScript values, the object store and outgoing calls\<close>

text \<open>
  The facade of \<^verbatim>\<open>src/tracer.js\<close> inspects its arguments with \<^verbatim>\<open>typeof\<close>,
  \<^verbatim>\<open>instanceof\<close>, truthiness tests and property reads, writes one property
  (\<^verbatim>\<open>fields.operationName\<close>), builds one object literal and two wrapper objects, and
  calls out to the installed implementation and to the \<^verbatim>\<open>done\<close> callback.

  Values are primitives or references to objects in a store. A reference carries the
  class of the object it points to, which is all that \<^verbatim>\<open>typeof\<close> and
  \<^verbatim>\<open>instanceof SpanContext\<close> look at. Numbers are only ever asked for their type and
  their truthiness; the model keeps the integers and NaN.
\<close>

type_synonym addr = nat

datatype objclass = PlainObject | FunctionObject | SpanContextObject | SpanObject

datatype jsval =
    Undefined
  | Null
  | Bool bool
  | Num int
  | NaN
  | Str string
  | Obj objclass addr

text \<open>
  Every failure of the source is \<^verbatim>\<open>throw new Error(message)\<close>; the message is kept.
  \<open>TypeError\<close> is what the language itself throws when a property of
  \<^verbatim>\<open>undefined\<close> or \<^verbatim>\<open>null\<close> is read or written, when a property is written
  on a primitive or on an object that refuses the write (the file is in strict mode),
  and when something that is not a function is called.
\<close>

datatype error = Error string | TypeError

text \<open>
  The store. \<open>objs h a\<close> are the own properties of the object at \<open>a\<close>;
  \<open>extensible h a\<close> says whether it takes new properties (false after
  \<^verbatim>\<open>Object.preventExtensions\<close>, \<^verbatim>\<open>Object.seal\<close>, \<^verbatim>\<open>Object.freeze\<close>);
  \<open>readonly h a p\<close> says that its property \<open>p\<close> is not writable (as every
  property of a frozen object is). Properties are data properties: setters are not
  modelled.
\<close>

record heap =
  objs :: "addr \<Rightarrow> string \<Rightarrow> jsval option"
  extensible :: "addr \<Rightarrow> bool"
  readonly :: "addr \<Rightarrow> string \<Rightarrow> bool"
  next_addr :: addr

fun typeof :: "jsval \<Rightarrow> string" where
  "typeof Undefined = ''undefined''"
| "typeof Null = ''object''"
| "typeof (Bool b) = ''boolean''"
| "typeof (Num n) = ''number''"
| "typeof NaN = ''number''"
| "typeof (Str s) = ''string''"
| "typeof (Obj c a) = (if c = FunctionObject then ''function'' else ''object'')"

fun truthy :: "jsval \<Rightarrow> bool" where
  "truthy Undefined = False"
| "truthy Null = False"
| "truthy (Bool b) = b"
| "truthy (Num n) = (n \<noteq> 0)"
| "truthy NaN = False"
| "truthy (Str s) = (s \<noteq> [])"
| "truthy (Obj c a) = True"

text \<open>
  \<^verbatim>\<open>v.p\<close>. The properties the source reads (\<^verbatim>\<open>operationName\<close>, \<^verbatim>\<open>reference\<close>,
  \<^verbatim>\<open>references\<close>, \<^verbatim>\<open>buffer\<close>, \<^verbatim>\<open>_imp\<close>) exist on no built-in prototype, so a
  primitive other than \<^verbatim>\<open>undefined\<close> and \<^verbatim>\<open>null\<close> answers \<^verbatim>\<open>undefined\<close>.
\<close>

fun get_prop :: "heap \<Rightarrow> jsval \<Rightarrow> string \<Rightarrow> error + jsval" where
  "get_prop h Undefined p = Inl TypeError"
| "get_prop h Null p = Inl TypeError"
| "get_prop h (Obj c a) p = Inr (case objs h a p of Some v \<Rightarrow> v | None \<Rightarrow> Undefined)"
| "get_prop h (Bool b) p = Inr Undefined"
| "get_prop h (Num n) p = Inr Undefined"
| "get_prop h NaN p = Inr Undefined"
| "get_prop h (Str s) p = Inr Undefined"

text \<open>
  \<^verbatim>\<open>v.p = x\<close> in strict mode. An object takes the write when it has \<open>p\<close> as a
  writable property, or lacks \<open>p\<close> and is extensible (the new property is writable);
  otherwise the assignment throws a TypeError and nothing is written.
\<close>

definition can_write :: "heap \<Rightarrow> addr \<Rightarrow> string \<Rightarrow> bool" where
  "can_write h a p = (case objs h a p of Some v \<Rightarrow> \<not> readonly h a p | None \<Rightarrow> extensible h a)"

fun set_prop :: "heap \<Rightarrow> jsval \<Rightarrow> string \<Rightarrow> jsval \<Rightarrow> error + heap" where
  "set_prop h (Obj c a) p x =
     (if can_write h a p then
        Inr (h\<lparr>objs := (objs h)(a := (objs h a)(p \<mapsto> x)),
               readonly := (readonly h)(a := (readonly h a)(p := False))\<rparr>)
      else Inl TypeError)"
| "set_prop h Undefined p x = Inl TypeError"
| "set_prop h Null p x = Inl TypeError"
| "set_prop h (Bool b) p x = Inl TypeError"
| "set_prop h (Num n) p x = Inl TypeError"
| "set_prop h NaN p x = Inl TypeError"
| "set_prop h (Str s) p x = Inl TypeError"

text \<open>
  A new object of class \<open>c\<close> with the properties \<open>ps\<close>, at the next free address,
  extensible and with writable properties.
\<close>

definition alloc :: "heap \<Rightarrow> objclass \<Rightarrow> (string \<Rightarrow> jsval option) \<Rightarrow> jsval \<times> heap" where
  "alloc h c ps =
     (Obj c (next_addr h),
      h\<lparr>objs := (objs h)(next_addr h := ps),
        extensible := (extensible h)(next_addr h := True),
        readonly := (readonly h)(next_addr h := (\<lambda>p. False)),
        next_addr := Suc (next_addr h)\<rparr>)"

text \<open>
  Code outside the facade: the four methods of the installed implementation and the
  functions a caller passes in. Each takes the argument list and the store and either
  throws or returns, leaving a store. The facade's own calls out are logged, oldest
  first: \<open>trace\<close> has the callee and the arguments passed, \<open>stores\<close> the store as
  it was when the call was made.
\<close>

type_synonym extfun = "jsval list \<Rightarrow> heap \<Rightarrow> (error + jsval) \<times> heap"

record backend =
  imp_startSpan :: extfun
  imp_inject :: extfun
  imp_extract :: extfun
  imp_flush :: extfun

datatype callee = Callback addr | ImpStartSpan | ImpInject | ImpExtract | ImpFlush

record world =
  hp :: heap
  trace :: "(callee \<times> jsval list) list"
  stores :: "heap list"

definition call_ext :: "callee \<Rightarrow> extfun \<Rightarrow> jsval list \<Rightarrow> world \<Rightarrow> (error + jsval) \<times> world" where
  "call_ext c f args w =
     (case f args (hp w) of
        (r, h') \<Rightarrow> (r, \<lparr>hp = h', trace = trace w @ [(c, args)], stores = stores w @ [hp w]\<rparr>))"

text \<open>
  \<^verbatim>\<open>v(args)\<close> for a value \<open>v\<close>; \<open>F a\<close> is the behaviour of the function object at
  address \<open>a\<close>.
\<close>

definition call_value :: "(addr \<Rightarrow> extfun) \<Rightarrow> jsval \<Rightarrow> jsval list \<Rightarrow> world \<Rightarrow> (error + jsval) \<times> world" where
  "call_value F v args w =
     (case v of
        Obj c a \<Rightarrow> (if c = FunctionObject then call_ext (Callback a) (F a) args w
                    else (Inl TypeError, w))
      | _ \<Rightarrow> (Inl TypeError, w))"

text \<open>
  The \<^verbatim>\<open>arguments\<close> object is the list of the values passed; a named parameter is the
  argument at its position, \<^verbatim>\<open>undefined\<close> when the call was shorter.
\<close>

definition arg :: "jsval list \<Rightarrow> nat \<Rightarrow> jsval" where
  "arg args i = (if i < length args then args ! i else Undefined)"

section \<open>What the source imports\<close>

text \<open>
  Modelled from the spec: \<^verbatim>\<open>constants.js\<close> and the build-time flag
  \<^verbatim>\<open>API_CONFORMANCE_CHECKS\<close> are not among the sources. The spec (sections 3 and 6)
  gives the format identifiers as strings and the flag as a boolean toggle; they are
  parameters of every operation.
\<close>

record env =
  API_CONFORMANCE_CHECKS :: bool
  FORMAT_TEXT_MAP :: string
  FORMAT_BINARY :: string

text \<open>
  Modelled from the spec: \<^verbatim>\<open>span.js\<close> and \<^verbatim>\<open>span_context.js\<close> are not among the
  sources. The spec (section 3) gives a Span and a SpanContext one attribute each, the
  implementation reference, absent (\<^verbatim>\<open>null\<close>) for a no-op object; \<^verbatim>\<open>inject\<close> reads
  it as \<^verbatim>\<open>spanContext._imp\<close>.
\<close>

definition new_Span :: "jsval \<Rightarrow> world \<Rightarrow> (error + jsval) \<times> world" where
  "new_Span spanImp w =
     (case alloc (hp w) SpanObject [''_imp'' \<mapsto> spanImp] of
        (v, h') \<Rightarrow> (Inr v, w\<lparr>hp := h'\<rparr>))"

definition new_SpanContext :: "jsval \<Rightarrow> world \<Rightarrow> (error + jsval) \<times> world" where
  "new_SpanContext spanContextImp w =
     (case alloc (hp w) SpanContextObject [''_imp'' \<mapsto> spanContextImp] of
        (v, h') \<Rightarrow> (Inr v, w\<lparr>hp := h'\<rparr>))"

section \<open>Tracer\<close>

text \<open>
  \<^verbatim>\<open>constructor(imp) { this._imp = imp || null; }\<close>: the field is \<^verbatim>\<open>null\<close>
  (\<open>None\<close>) or an implementation object.
\<close>

record tracer =
  tracer_imp :: "backend option"

definition Tracer :: "backend option \<Rightarrow> tracer" where
  "Tracer imp = \<lparr>tracer_imp = imp\<rparr>"

subsection \<open>startSpan\<close>

text \<open>Lines 56 to 77: the conformance checks; \<open>Some e\<close> is \<^verbatim>\<open>throw e\<close>.\<close>

definition startSpan_checks :: "env \<Rightarrow> jsval list \<Rightarrow> heap \<Rightarrow> error option" where
  "startSpan_checks E args h =
     (let nameOrFields = arg args 0 in
      if API_CONFORMANCE_CHECKS E then
        if length args > 2 then Some (Error ''Invalid number of arguments.'')
        else if typeof nameOrFields \<noteq> ''string'' \<and> typeof nameOrFields \<noteq> ''object'' then
          Some (Error ''argument expected to be a string or object'')
        else if typeof nameOrFields = ''string'' \<and> nameOrFields = Str [] then
          Some (Error ''operation name cannot be length zero'')
        else if typeof nameOrFields = ''object'' then
          if length args \<noteq> 1 then Some (Error ''Unexpected number of arguments'')
          else if nameOrFields = Null then Some (Error ''fields should not be null'')
          else (case get_prop h nameOrFields ''operationName'' of
                  Inl e \<Rightarrow> Some e
                | Inr v \<Rightarrow> if truthy v then None
                           else Some (Error ''operationName is a required parameter''))
        else None
      else None)"

text \<open>
  Lines 83 to 93: the fields object handed to the implementation. With one argument it
  is a new object literal (a string argument) or the argument itself; otherwise the
  name is written into the caller's second argument.
\<close>

definition startSpan_fields :: "jsval list \<Rightarrow> heap \<Rightarrow> error + (jsval \<times> heap)" where
  "startSpan_fields args h =
     (let nameOrFields = arg args 0; fields = arg args 1 in
      if length args = 1 then
        if typeof nameOrFields = ''string'' then
          Inr (alloc h PlainObject [''operationName'' \<mapsto> nameOrFields])
        else Inr (nameOrFields, h)
      else (case set_prop h fields ''operationName'' nameOrFields of
              Inl e \<Rightarrow> Inl e
            | Inr h' \<Rightarrow> Inr (fields, h')))"

text \<open>
  Line 94: \<^verbatim>\<open>API_CONFORMANCE_CHECKS && fields.reference && fields.references\<close>,
  evaluated left to right, on the fields object \<open>fields'\<close>.
\<close>

definition startSpan_conflict :: "env \<Rightarrow> heap \<Rightarrow> jsval \<Rightarrow> error + bool" where
  "startSpan_conflict E h fields' =
     (if API_CONFORMANCE_CHECKS E then
        (case get_prop h fields' ''reference'' of
           Inl e \<Rightarrow> Inl e
         | Inr r \<Rightarrow>
             if truthy r then
               (case get_prop h fields' ''references'' of
                  Inl e \<Rightarrow> Inl e
                | Inr rs \<Rightarrow> Inr (truthy rs))
             else Inr False)
      else Inr False)"

definition startSpan :: "env \<Rightarrow> tracer \<Rightarrow> jsval list \<Rightarrow> world \<Rightarrow> (error + jsval) \<times> world" where
  "startSpan E this args w =
     (case startSpan_checks E args (hp w) of
        Some e \<Rightarrow> (Inl e, w)
      | None \<Rightarrow>
          (case tracer_imp this of
             None \<Rightarrow> new_Span Null w
           | Some imp \<Rightarrow>
               (case startSpan_fields args (hp w) of
                  Inl e \<Rightarrow> (Inl e, w)
                | Inr (fields', h1) \<Rightarrow>
                    (case startSpan_conflict E h1 fields' of
                       Inl e \<Rightarrow> (Inl e, w\<lparr>hp := h1\<rparr>)
                     | Inr True \<Rightarrow>
                         (Inl (Error ''At most one of `reference` and `references` may be specified''),
                          w\<lparr>hp := h1\<rparr>)
                     | Inr False \<Rightarrow>
                         (case call_ext ImpStartSpan (imp_startSpan imp) [fields'] (w\<lparr>hp := h1\<rparr>) of
                            (Inl e, w2) \<Rightarrow> (Inl e, w2)
                          | (Inr spanImp, w2) \<Rightarrow> new_Span spanImp w2)))))"

subsection \<open>inject\<close>

text \<open>Lines 136 to 152.\<close>

definition inject_checks :: "env \<Rightarrow> jsval list \<Rightarrow> error option" where
  "inject_checks E args =
     (let spanContext = arg args 0; format = arg args 1; carrier = arg args 2 in
      if API_CONFORMANCE_CHECKS E then
        if length args \<noteq> 3 then Some (Error ''Invalid number of arguments.'')
        else if (case spanContext of Obj c a \<Rightarrow> c \<noteq> SpanContextObject | _ \<Rightarrow> True) then
          Some (Error ''Expected SpanContext object as first argument'')
        else if typeof format \<noteq> ''string'' then
          Some (Error (''format expected to be a string. Found: '' @ typeof format))
        else if format = Str (FORMAT_TEXT_MAP E) \<and> typeof carrier \<noteq> ''object'' then
          Some (Error ''Unexpected carrier object for TEXT_MAP format'')
        else if format = Str (FORMAT_BINARY E) \<and> typeof carrier \<noteq> ''object'' then
          Some (Error ''Unexpected carrier object for BINARY format'')
        else None
      else None)"

definition inject :: "env \<Rightarrow> tracer \<Rightarrow> jsval list \<Rightarrow> world \<Rightarrow> (error + jsval) \<times> world" where
  "inject E this args w =
     (let spanContext = arg args 0; format = arg args 1; carrier = arg args 2 in
      case inject_checks E args of
        Some e \<Rightarrow> (Inl e, w)
      | None \<Rightarrow>
          (case tracer_imp this of
             None \<Rightarrow> (Inr Undefined, w)
           | Some imp \<Rightarrow>
               (case get_prop (hp w) spanContext ''_imp'' of
                  Inl e \<Rightarrow> (Inl e, w)
                | Inr ctxImp \<Rightarrow>
                    (case call_ext ImpInject (imp_inject imp) [ctxImp, format, carrier] w of
                       (Inl e, w1) \<Rightarrow> (Inl e, w1)
                     | (Inr r, w1) \<Rightarrow> (Inr Undefined, w1)))))"

subsection \<open>extract\<close>

text \<open>
  The method \<^verbatim>\<open>extract\<close> is \<open>extract_ctx\<close> here (the bare name is a command of the
  prover). Lines 182 to 197. \<^verbatim>\<open>typeof format !== 'string' || !format.length\<close> holds of
  everything but a string with at least one character.
\<close>

definition extract_checks :: "env \<Rightarrow> jsval list \<Rightarrow> heap \<Rightarrow> error option" where
  "extract_checks E args h =
     (let format = arg args 0; carrier = arg args 1 in
      if API_CONFORMANCE_CHECKS E then
        if length args \<noteq> 2 then Some (Error ''Invalid number of arguments.'')
        else if (case format of Str s \<Rightarrow> s = [] | _ \<Rightarrow> True) then
          Some (Error ''format is expected to be a string of non-zero length'')
        else if format = Str (FORMAT_TEXT_MAP E) \<and> typeof carrier \<noteq> ''object'' then
          Some (Error ''Unexpected carrier object for FORMAT_TEXT_MAP'')
        else if format = Str (FORMAT_BINARY E) then
          (case get_prop h carrier ''buffer'' of
             Inl e \<Rightarrow> Some e
           | Inr b \<Rightarrow>
               if b \<noteq> Undefined \<and> typeof b \<noteq> ''object'' then
                 Some (Error ''Unexpected carrier object for FORMAT_BINARY'')
               else None)
        else None
      else None)"

definition extract_ctx :: "env \<Rightarrow> tracer \<Rightarrow> jsval list \<Rightarrow> world \<Rightarrow> (error + jsval) \<times> world" where
  "extract_ctx E this args w =
     (let format = arg args 0; carrier = arg args 1 in
      case extract_checks E args (hp w) of
        Some e \<Rightarrow> (Inl e, w)
      | None \<Rightarrow>
          (case tracer_imp this of
             None \<Rightarrow> new_SpanContext Null w
           | Some imp \<Rightarrow>
               (case call_ext ImpExtract (imp_extract imp) [format, carrier] w of
                  (Inl e, w1) \<Rightarrow> (Inl e, w1)
                | (Inr spanContextImp, w1) \<Rightarrow> new_SpanContext spanContextImp w1)))"

subsection \<open>flush\<close>

text \<open>Lines 214 to 221.\<close>

definition flush_checks :: "env \<Rightarrow> jsval list \<Rightarrow> error option" where
  "flush_checks E args =
     (let done = arg args 0 in
      if API_CONFORMANCE_CHECKS E then
        if length args > 1 then Some (Error ''Invalid number of arguments'')
        else if done \<noteq> Undefined \<and> typeof done \<noteq> ''function'' then
          Some (Error ''callback expected to be a function'')
        else None
      else None)"

definition flush :: "env \<Rightarrow> (addr \<Rightarrow> extfun) \<Rightarrow> tracer \<Rightarrow> jsval list \<Rightarrow> world \<Rightarrow> (error + jsval) \<times> world" where
  "flush E F this args w =
     (let done = arg args 0 in
      case flush_checks E args of
        Some e \<Rightarrow> (Inl e, w)
      | None \<Rightarrow>
          (case tracer_imp this of
             None \<Rightarrow>
               (case call_value F done [Null] w of
                  (Inl e, w1) \<Rightarrow> (Inl e, w1)
                | (Inr r, w1) \<Rightarrow> (Inr Undefined, w1))
           | Some imp \<Rightarrow>
               (case call_ext ImpFlush (imp_flush imp) [done] w of
                  (Inl e, w1) \<Rightarrow> (Inl e, w1)
                | (Inr r, w1) \<Rightarrow> (Inr Undefined, w1))))"

subsection \<open>imp\<close>

definition imp :: "tracer \<Rightarrow> backend option" where
  "imp this = tracer_imp this"

section \<open>Concrete inputs\<close>

text \<open>
  A build with the conformance checks on; an implementation whose four methods do
  nothing; an implementation whose \<^verbatim>\<open>startSpan\<close> answers with the
  \<^verbatim>\<open>operationName\<close> it finds on the fields it is given; and a few small stores: one
  empty object \<^verbatim>\<open>{}\<close>; a fields object with both \<^verbatim>\<open>reference\<close> and
  \<^verbatim>\<open>references\<close>, and the same object frozen; a fields object
  \<^verbatim>\<open>{operationName: ''}\<close>; a no-op SpanContext next to an empty carrier.
\<close>

definition checks_on :: env where
  "checks_on =
     \<lparr>API_CONFORMANCE_CHECKS = True, FORMAT_TEXT_MAP = ''text_map'', FORMAT_BINARY = ''binary''\<rparr>"

definition quiet_backend :: backend where
  "quiet_backend =
     \<lparr>imp_startSpan = (\<lambda>args h. (Inr Null, h)),
      imp_inject = (\<lambda>args h. (Inr Undefined, h)),
      imp_extract = (\<lambda>args h. (Inr Null, h)),
      imp_flush = (\<lambda>args h. (Inr Undefined, h))\<rparr>"

definition naming_backend :: backend where
  "naming_backend =
     \<lparr>imp_startSpan = (\<lambda>args h. (get_prop h (arg args 0) ''operationName'', h)),
      imp_inject = (\<lambda>args h. (Inr Undefined, h)),
      imp_extract = (\<lambda>args h. (Inr Null, h)),
      imp_flush = (\<lambda>args h. (Inr Undefined, h))\<rparr>"

definition world_empty_object :: world where
  "world_empty_object =
     \<lparr>hp = \<lparr>objs = (\<lambda>a. Map.empty), extensible = (\<lambda>a. True), readonly = (\<lambda>a p. False),
            next_addr = 1\<rparr>,
      trace = [], stores = []\<rparr>"

definition world_both_references :: world where
  "world_both_references =
     \<lparr>hp = \<lparr>objs = (\<lambda>a. Map.empty)
                (0 := [''reference'' \<mapsto> Obj PlainObject 1, ''references'' \<mapsto> Obj PlainObject 2]),
            extensible = (\<lambda>a. True), readonly = (\<lambda>a p. False), next_addr = 3\<rparr>,
      trace = [], stores = []\<rparr>"

definition world_frozen_references :: world where
  "world_frozen_references =
     \<lparr>hp = \<lparr>objs = (\<lambda>a. Map.empty)
                (0 := [''reference'' \<mapsto> Obj PlainObject 1, ''references'' \<mapsto> Obj PlainObject 2]),
            extensible = (\<lambda>a. a \<noteq> 0), readonly = (\<lambda>a p. a = 0), next_addr = 3\<rparr>,
      trace = [], stores = []\<rparr>"

definition world_empty_name :: world where
  "world_empty_name =
     \<lparr>hp = \<lparr>objs = (\<lambda>a. Map.empty)(0 := [''operationName'' \<mapsto> Str '''']),
            extensible = (\<lambda>a. True), readonly = (\<lambda>a p. False), next_addr = 1\<rparr>,
      trace = [], stores = []\<rparr>"

definition world_context_carrier :: world where
  "world_context_carrier =
     \<lparr>hp = \<lparr>objs = (\<lambda>a. Map.empty)(0 := [''_imp'' \<mapsto> Null]),
            extensible = (\<lambda>a. True), readonly = (\<lambda>a p. False), next_addr = 2\<rparr>,
      trace = [], stores = []\<rparr>"

section \<open>flush without an implementation\<close>

text \<open>
  C1. The claim: on a Tracer with no implementation, \<^verbatim>\<open>flush()\<close> without a callback
  does not throw, and \<^verbatim>\<open>flush(done)\<close> calls \<^verbatim>\<open>done\<close> exactly once with
  \<^verbatim>\<open>null\<close>. The code calls \<^verbatim>\<open>done(null)\<close> unguarded (line 223): with no argument,
  whatever the build flag, the call of \<^verbatim>\<open>undefined\<close> throws a TypeError, although the
  checks just above accept an omitted callback and the documentation calls it optional.
\<close>

theorem flush_without_callback:
  "flush E F (Tracer None) [] w = (Inl TypeError, w)"
  by (simp add: flush_def flush_checks_def call_value_def arg_def Tracer_def Let_def)

text \<open>The other half of C1 holds: a function passed as callback is called once, with \<^verbatim>\<open>null\<close>.\<close>

lemma flush_callback_once:
  assumes "tracer_imp this = None"
  shows "trace (snd (flush E F this [Obj FunctionObject a] w)) = trace w @ [(Callback a, [Null])]"
  using assms
  by (simp add: flush_def flush_checks_def call_value_def call_ext_def arg_def Let_def
      split: prod.splits sum.splits)

section \<open>Conflicting references\<close>

text \<open>
  C2, as stated, fails: with no implementation installed \<^verbatim>\<open>reference\<close> and
  \<^verbatim>\<open>references\<close> are never looked at. Here
  \<^verbatim>\<open>startSpan('a', {reference: r, references: rs})\<close> on a Tracer without
  implementation, checks on, returns a new Span.
\<close>

theorem startSpan_no_implementation_counterexample:
  "fst (startSpan checks_on (Tracer None) [Str ''a'', Obj PlainObject 0] world_both_references)
     = Inr (Obj SpanObject 3)"
  by (simp add: startSpan_def startSpan_checks_def arg_def Tracer_def new_Span_def alloc_def
      Let_def checks_on_def world_both_references_def)

lemma startSpan_no_imp:
  assumes "tracer_imp this = None" and "startSpan_checks E args (hp w) = None"
  shows "startSpan E this args w = new_Span Null w"
  using assms by (simp add: startSpan_def)

lemma new_Span_result:
  "fst (new_Span v w) = Inr (Obj SpanObject (next_addr (hp w)))
   \<and> get_prop (hp (snd (new_Span v w))) (Obj SpanObject (next_addr (hp w))) ''_imp'' = Inr v
   \<and> trace (snd (new_Span v w)) = trace w
   \<and> stores (snd (new_Span v w)) = stores w"
  by (simp add: new_Span_def alloc_def)

text \<open>
  C2, amended. Take a call \<^verbatim>\<open>startSpan(fields)\<close> or \<^verbatim>\<open>startSpan(name, fields)\<close>
  that passes the argument checks and whose fields object has truthy \<^verbatim>\<open>reference\<close>
  and \<^verbatim>\<open>references\<close>.
  \<^item> With the conformance checks enabled and an implementation installed, and, in the
    two-argument form, a fields object that takes the write of \<^verbatim>\<open>operationName\<close>
    (line 92), the call throws the error for conflicting references and the
    implementation is not called.
  \<^item> With an implementation installed, in the two-argument form, a fields object that
    refuses that write (frozen, not extensible and without the property, or with a
    read-only \<^verbatim>\<open>operationName\<close>) makes the call throw a TypeError, before the
    references are tested; nothing changes.
  \<^item> With no implementation installed the call returns a new Span whose \<^verbatim>\<open>_imp\<close> is
    \<^verbatim>\<open>null\<close> and makes no call out, whatever \<^verbatim>\<open>reference\<close> and
    \<^verbatim>\<open>references\<close> hold.
\<close>

theorem startSpan_conflicting_references:
  assumes "args = [Obj c a] \<or> args = [x, Obj c a]"
    and "startSpan_checks E args (hp w) = None"
    and "objs (hp w) a ''reference'' = Some r" and "truthy r"
    and "objs (hp w) a ''references'' = Some rs" and "truthy rs"
  shows "(API_CONFORMANCE_CHECKS E \<and> tracer_imp this = Some B
            \<and> (args = [x, Obj c a] \<longrightarrow> can_write (hp w) a ''operationName'') \<longrightarrow>
            fst (startSpan E this args w)
              = Inl (Error ''At most one of `reference` and `references` may be specified'')
            \<and> trace (snd (startSpan E this args w)) = trace w)
       \<and> (tracer_imp this = Some B \<and> args = [x, Obj c a]
            \<and> \<not> can_write (hp w) a ''operationName'' \<longrightarrow>
            startSpan E this args w = (Inl TypeError, w))
       \<and> (tracer_imp this = None \<longrightarrow>
            fst (startSpan E this args w) = Inr (Obj SpanObject (next_addr (hp w)))
            \<and> get_prop (hp (snd (startSpan E this args w)))
                 (Obj SpanObject (next_addr (hp w))) ''_imp'' = Inr Null
            \<and> trace (snd (startSpan E this args w)) = trace w)"
proof (intro conjI impI)
  assume h: "API_CONFORMANCE_CHECKS E \<and> tracer_imp this = Some B
            \<and> (args = [x, Obj c a] \<longrightarrow> can_write (hp w) a ''operationName'')"
  from assms(1) have both: "fst (startSpan E this args w)
              = Inl (Error ''At most one of `reference` and `references` may be specified'')
            \<and> trace (snd (startSpan E this args w)) = trace w"
  proof
    assume "args = [Obj c a]"
    with h assms(2-6) show ?thesis
      by (simp add: startSpan_def startSpan_fields_def startSpan_conflict_def arg_def Let_def)
  next
    assume "args = [x, Obj c a]"
    with h assms(2-6) show ?thesis
      by (simp add: startSpan_def startSpan_fields_def startSpan_conflict_def arg_def Let_def)
  qed
  from both show "fst (startSpan E this args w)
              = Inl (Error ''At most one of `reference` and `references` may be specified'')" by simp
  from both show "trace (snd (startSpan E this args w)) = trace w" by simp
next
  assume "tracer_imp this = Some B \<and> args = [x, Obj c a]
            \<and> \<not> can_write (hp w) a ''operationName''"
  with assms(2) show "startSpan E this args w = (Inl TypeError, w)"
    by (simp add: startSpan_def startSpan_fields_def arg_def Let_def)
next
  assume n: "tracer_imp this = None"
  from startSpan_no_imp [OF n assms(2)] new_Span_result [of Null w]
  show "fst (startSpan E this args w) = Inr (Obj SpanObject (next_addr (hp w)))"
    and "get_prop (hp (snd (startSpan E this args w)))
                 (Obj SpanObject (next_addr (hp w))) ''_imp'' = Inr Null"
    and "trace (snd (startSpan E this args w)) = trace w"
    by simp_all
qed

theorem startSpan_conflicting_references_witness:
  "fst (startSpan checks_on (Tracer (Some quiet_backend)) [Str ''a'', Obj PlainObject 0]
          world_both_references)
     = Inl (Error ''At most one of `reference` and `references` may be specified'')
   \<and> trace (snd (startSpan checks_on (Tracer (Some quiet_backend)) [Str ''a'', Obj PlainObject 0]
          world_both_references)) = []
   \<and> startSpan checks_on (Tracer (Some quiet_backend)) [Str ''a'', Obj PlainObject 0]
          world_frozen_references = (Inl TypeError, world_frozen_references)
   \<and> fst (startSpan checks_on (Tracer None) [Str ''a'', Obj PlainObject 0] world_frozen_references)
     = Inr (Obj SpanObject 3)
   \<and> get_prop (hp (snd (startSpan checks_on (Tracer None) [Str ''a'', Obj PlainObject 0]
          world_frozen_references))) (Obj SpanObject 3) ''_imp'' = Inr Null"
  using startSpan_conflicting_references [where E = checks_on
      and this = "Tracer (Some quiet_backend)" and B = quiet_backend
      and args = "[Str ''a'', Obj PlainObject 0]" and c = PlainObject and a = 0
      and x = "Str ''a''" and w = world_both_references
      and r = "Obj PlainObject 1" and rs = "Obj PlainObject 2"]
    startSpan_conflicting_references [where E = checks_on
      and this = "Tracer (Some quiet_backend)" and B = quiet_backend
      and args = "[Str ''a'', Obj PlainObject 0]" and c = PlainObject and a = 0
      and x = "Str ''a''" and w = world_frozen_references
      and r = "Obj PlainObject 1" and rs = "Obj PlainObject 2"]
    startSpan_conflicting_references [where E = checks_on
      and this = "Tracer None"
      and args = "[Str ''a'', Obj PlainObject 0]" and c = PlainObject and a = 0
      and x = "Str ''a''" and w = world_frozen_references
      and r = "Obj PlainObject 1" and rs = "Obj PlainObject 2"]
  by (simp add: checks_on_def Tracer_def world_both_references_def world_frozen_references_def
      startSpan_checks_def can_write_def arg_def Let_def)

section \<open>What startSpan writes\<close>

text \<open>
  C3, as stated, fails: in the two-argument form with an implementation installed the
  facade writes the name into the caller's fields object (line 92). With an
  implementation that touches nothing, \<^verbatim>\<open>startSpan('a', fields)\<close> on an empty
  \<^verbatim>\<open>fields\<close> leaves \<^verbatim>\<open>fields.operationName === 'a'\<close>.
\<close>

theorem startSpan_writes_operationName_counterexample:
  "objs (hp world_empty_object) 0 ''operationName'' = None
   \<and> objs (hp (snd (startSpan checks_on (Tracer (Some quiet_backend))
                       [Str ''a'', Obj PlainObject 0] world_empty_object))) 0 ''operationName''
       = Some (Str ''a'')"
  by (simp add: startSpan_def startSpan_checks_def startSpan_fields_def startSpan_conflict_def
      arg_def Tracer_def new_Span_def alloc_def call_ext_def can_write_def Let_def
      checks_on_def world_empty_object_def quiet_backend_def)

lemma startSpan_fields_frame:
  assumes "a < next_addr h" and "startSpan_fields args h = Inr (f, h1)"
  shows "next_addr h \<le> next_addr h1
       \<and> objs h1 a = (if length args \<noteq> 1 \<and> (\<exists>c. arg args 1 = Obj c a)
                          \<and> can_write h a ''operationName''
                       then (objs h a)(''operationName'' \<mapsto> arg args 0) else objs h a)"
proof (cases "length args = 1")
  case True
  with assms show ?thesis
    by (auto simp add: startSpan_fields_def alloc_def Let_def split: if_splits)
next
  case False
  with assms(2) have sp: "set_prop h (arg args 1) ''operationName'' (arg args 0) = Inr h1"
    by (simp add: startSpan_fields_def Let_def split: sum.splits)
  then obtain c b where ob: "arg args 1 = Obj c b"
    by (cases "arg args 1") simp_all
  with sp have cw: "can_write h b ''operationName''"
    by (simp split: if_splits)
  with sp ob have h1: "h1 = h\<lparr>objs := (objs h)(b := (objs h b)(''operationName'' \<mapsto> arg args 0)),
         readonly := (readonly h)(b := (readonly h b)(''operationName'' := False))\<rparr>"
    by simp
  show ?thesis
  proof (cases "b = a")
    case True
    with h1 ob cw False show ?thesis by auto
  next
    case False
    with h1 ob show ?thesis by auto
  qed
qed

lemma startSpan_fields_fails:
  assumes "startSpan_fields args h = Inl e"
  shows "\<not> (length args \<noteq> 1 \<and> (\<exists>c. arg args 1 = Obj c a) \<and> can_write h a ''operationName'')"
  using assms
  by (auto simp add: startSpan_fields_def Let_def split: if_splits)

lemma new_Span_frame:
  assumes "a < next_addr (hp w)"
  shows "objs (hp (snd (new_Span v w))) a = objs (hp w) a
       \<and> trace (snd (new_Span v w)) = trace w \<and> stores (snd (new_Span v w)) = stores w"
  using assms by (simp add: new_Span_def alloc_def)

text \<open>
  C3, amended. Let \<open>a\<close> be an object that existed before the call, and any
  implementation. The facade changes the properties of \<open>a\<close> in one case only: an
  implementation is installed, the argument checks pass, the call is not the
  one-argument form, and \<open>a\<close> is the second argument and takes the write; then
  \<^verbatim>\<open>operationName\<close> on it is set to the first argument. Precisely, either
  \<^item> the call makes no call out, and leaves \<open>a\<close> with exactly that change or none; or
  \<^item> the call makes one call out, to the implementation's \<^verbatim>\<open>startSpan\<close>, and the
    store at that moment has \<open>a\<close> with exactly that change or none (the write comes
    before the delegation); afterwards the facade leaves \<open>a\<close> as the implementation
    left it (the implementation keeping the next free address above \<open>a\<close>).
\<close>

theorem startSpan_frame:
  assumes "a < next_addr (hp w)"
  shows "(trace (snd (startSpan E this args w)) = trace w
          \<and> stores (snd (startSpan E this args w)) = stores w
          \<and> objs (hp (snd (startSpan E this args w))) a =
              (if tracer_imp this \<noteq> None \<and> startSpan_checks E args (hp w) = None
                  \<and> length args \<noteq> 1 \<and> (\<exists>c. arg args 1 = Obj c a)
                  \<and> can_write (hp w) a ''operationName''
               then (objs (hp w) a)(''operationName'' \<mapsto> arg args 0)
               else objs (hp w) a))
       \<or> (\<exists>B f h1. tracer_imp this = Some B
            \<and> trace (snd (startSpan E this args w)) = trace w @ [(ImpStartSpan, [f])]
            \<and> stores (snd (startSpan E this args w)) = stores w @ [h1]
            \<and> objs h1 a =
                (if startSpan_checks E args (hp w) = None
                    \<and> length args \<noteq> 1 \<and> (\<exists>c. arg args 1 = Obj c a)
                    \<and> can_write (hp w) a ''operationName''
                 then (objs (hp w) a)(''operationName'' \<mapsto> arg args 0)
                 else objs (hp w) a)
            \<and> (a < next_addr (snd (imp_startSpan B [f] h1)) \<longrightarrow>
                 objs (hp (snd (startSpan E this args w))) a
                   = objs (snd (imp_startSpan B [f] h1)) a))"
proof (cases "startSpan_checks E args (hp w)")
  case (Some e)
  then show ?thesis by (simp add: startSpan_def)
next
  case None
  show ?thesis
  proof (cases "tracer_imp this")
    case nimp: None
    with None have "startSpan E this args w = new_Span Null w" by (simp add: startSpan_def)
    with new_Span_frame [OF assms, of Null] nimp show ?thesis by simp
  next
    case (Some B)
    show ?thesis
    proof (cases "startSpan_fields args (hp w)")
      case (Inl e)
      from startSpan_fields_fails [OF Inl, of a] Inl None Some
      show ?thesis by (auto simp add: startSpan_def)
    next
      case (Inr p)
      obtain f h1 where p: "p = (f, h1)" by (cases p)
      from startSpan_fields_frame [OF assms Inr [unfolded p]]
      have le: "next_addr (hp w) \<le> next_addr h1"
        and h1: "objs h1 a = (if length args \<noteq> 1 \<and> (\<exists>c. arg args 1 = Obj c a)
                          \<and> can_write (hp w) a ''operationName''
                       then (objs (hp w) a)(''operationName'' \<mapsto> arg args 0) else objs (hp w) a)"
        by simp_all
      show ?thesis
      proof (cases "startSpan_conflict E h1 f")
        case (Inl e)
        with None Some Inr p have "startSpan E this args w = (Inl e, w\<lparr>hp := h1\<rparr>)"
          by (simp add: startSpan_def)
        with h1 None Some show ?thesis by simp
      next
        case cf: (Inr b)
        show ?thesis
        proof (cases b)
          case True
          with cf None Some Inr p have "\<exists>e. startSpan E this args w = (Inl e, w\<lparr>hp := h1\<rparr>)"
            by (simp add: startSpan_def)
          with h1 None Some show ?thesis by auto
        next
          case False
          obtain r h2 where call: "imp_startSpan B [f] h1 = (r, h2)"
            by (cases "imp_startSpan B [f] h1")
          let ?w2 = "\<lparr>hp = h2, trace = trace w @ [(ImpStartSpan, [f])], stores = stores w @ [h1]\<rparr>"
          have st: "startSpan E this args w =
                (case r of Inl e \<Rightarrow> (Inl e, ?w2) | Inr s \<Rightarrow> new_Span s ?w2)"
            using cf False None Some Inr p call
            by (simp add: startSpan_def call_ext_def split: sum.splits)
          have "trace (snd (startSpan E this args w)) = trace w @ [(ImpStartSpan, [f])]
              \<and> stores (snd (startSpan E this args w)) = stores w @ [h1]
              \<and> (a < next_addr h2 \<longrightarrow> objs (hp (snd (startSpan E this args w))) a = objs h2 a)"
          proof (cases r)
            case (Inl e)
            with st show ?thesis by simp
          next
            case (Inr s)
            with st show ?thesis by (simp add: new_Span_def alloc_def)
          qed
          with h1 None Some call show ?thesis by auto
        qed
      qed
    qed
  qed
qed

theorem startSpan_frame_witness:
  "map (\<lambda>h. objs h 0) (stores (snd (startSpan checks_on (Tracer (Some naming_backend))
                  [Str ''a'', Obj PlainObject 0] world_empty_object)))
     = [[''operationName'' \<mapsto> Str ''a'']]
   \<and> objs (hp (snd (startSpan checks_on (Tracer (Some naming_backend))
                  [Str ''a'', Obj PlainObject 0] world_empty_object))) 0
     = [''operationName'' \<mapsto> Str ''a'']
   \<and> objs (hp (snd (startSpan checks_on (Tracer (Some naming_backend))
                  [Str ''a'', Obj PlainObject 0] world_empty_object))) 1
     = [''_imp'' \<mapsto> Str ''a'']
   \<and> stores (snd (startSpan checks_on (Tracer (Some naming_backend))
                  [Str ''a'', Obj PlainObject 0] world_frozen_references)) = []
   \<and> objs (hp (snd (startSpan checks_on (Tracer (Some naming_backend))
                  [Str ''a'', Obj PlainObject 0] world_frozen_references))) 0
     = objs (hp world_frozen_references) 0"
  using startSpan_frame [where a = 0 and w = world_empty_object
      and this = "Tracer (Some naming_backend)" and E = checks_on
      and args = "[Str ''a'', Obj PlainObject 0]"]
    startSpan_frame [where a = 0 and w = world_frozen_references
      and this = "Tracer (Some naming_backend)" and E = checks_on
      and args = "[Str ''a'', Obj PlainObject 0]"]
  by (simp add: checks_on_def Tracer_def world_empty_object_def world_frozen_references_def
      naming_backend_def startSpan_def startSpan_checks_def startSpan_fields_def
      startSpan_conflict_def call_ext_def new_Span_def alloc_def can_write_def arg_def Let_def)

section \<open>inject and the empty format\<close>

text \<open>
  C4. The claim: \<^verbatim>\<open>inject(ctx, "", carrier)\<close> is rejected because the format must be
  a non-empty string. The check of \<^verbatim>\<open>inject\<close> (line 143) only asks for a string,
  where \<^verbatim>\<open>extract\<close> (line 186) also asks for a length: with a SpanContext, the empty
  format and an object as carrier the call returns normally, whatever the build flag
  and the format constants.
\<close>

theorem inject_empty_format:
  "inject E (Tracer None) [Obj SpanContextObject a, Str '''', Obj PlainObject b] w
     = (Inr Undefined, w)"
  by (simp add: inject_def inject_checks_def arg_def Tracer_def Let_def)

section \<open>extract without an implementation\<close>

text \<open>
  C5. On a Tracer with no implementation, \<^verbatim>\<open>extract\<close> of arguments that pass the
  checks, and in particular \<^verbatim>\<open>extract(FORMAT_TEXT_MAP, {})\<close> for a non-empty format
  constant, does not throw: it returns a new SpanContext whose \<^verbatim>\<open>_imp\<close> is
  \<^verbatim>\<open>null\<close>, and makes no call out.
\<close>

theorem extract_without_implementation:
  assumes "tracer_imp this = None"
    and "extract_checks E args (hp w) = None
         \<or> (args = [Str (FORMAT_TEXT_MAP E), Obj PlainObject b]
            \<and> FORMAT_TEXT_MAP E \<noteq> [] \<and> objs (hp w) b = Map.empty)"
  shows "fst (extract_ctx E this args w) = Inr (Obj SpanContextObject (next_addr (hp w)))
       \<and> get_prop (hp (snd (extract_ctx E this args w)))
            (Obj SpanContextObject (next_addr (hp w))) ''_imp'' = Inr Null
       \<and> trace (snd (extract_ctx E this args w)) = trace w"
proof -
  from assms(2) have ok: "extract_checks E args (hp w) = None"
  proof
    assume "extract_checks E args (hp w) = None"
    then show ?thesis .
  next
    assume "args = [Str (FORMAT_TEXT_MAP E), Obj PlainObject b]
            \<and> FORMAT_TEXT_MAP E \<noteq> [] \<and> objs (hp w) b = Map.empty"
    then show ?thesis by (simp add: extract_checks_def arg_def Let_def)
  qed
  with assms(1) show ?thesis
    by (simp add: extract_ctx_def new_SpanContext_def alloc_def Let_def)
qed

theorem extract_without_implementation_witness:
  "fst (extract_ctx checks_on (Tracer None) [Str ''text_map'', Obj PlainObject 0]
          world_empty_object) = Inr (Obj SpanContextObject 1)
   \<and> get_prop (hp (snd (extract_ctx checks_on (Tracer None) [Str ''text_map'', Obj PlainObject 0]
          world_empty_object))) (Obj SpanContextObject 1) ''_imp'' = Inr Null
   \<and> trace (snd (extract_ctx checks_on (Tracer None) [Str ''text_map'', Obj PlainObject 0]
          world_empty_object)) = []"
  using extract_without_implementation [where this = "Tracer None" and E = checks_on
      and args = "[Str ''text_map'', Obj PlainObject 0]" and w = world_empty_object and b = 0]
  by (simp add: checks_on_def Tracer_def world_empty_object_def)

section \<open>inject without an implementation\<close>

text \<open>
  C6. On a Tracer with no implementation, \<^verbatim>\<open>inject\<close> changes nothing: the store,
  the carrier in it, and the log of calls out are as before, whether the checks throw or
  not; when they pass, the call returns \<^verbatim>\<open>undefined\<close>.
\<close>

theorem inject_without_implementation:
  assumes "tracer_imp this = None"
  shows "snd (inject E this args w) = w
       \<and> (inject_checks E args = None \<longrightarrow> fst (inject E this args w) = Inr Undefined)"
  using assms by (simp add: inject_def Let_def split: option.splits)

theorem inject_without_implementation_witness:
  "snd (inject checks_on (Tracer None) [Obj SpanContextObject 0, Str ''text_map'', Obj PlainObject 1]
          world_context_carrier) = world_context_carrier
   \<and> fst (inject checks_on (Tracer None) [Obj SpanContextObject 0, Str ''text_map'', Obj PlainObject 1]
          world_context_carrier) = Inr Undefined"
  using inject_without_implementation [where this = "Tracer None" and E = checks_on
      and args = "[Obj SpanContextObject 0, Str ''text_map'', Obj PlainObject 1]"
      and w = world_context_carrier]
  by (simp add: checks_on_def Tracer_def inject_checks_def arg_def Let_def)

section \<open>Argument counts\<close>

text \<open>
  C7. With the conformance checks enabled, \<^verbatim>\<open>startSpan\<close> with more than two
  arguments, \<^verbatim>\<open>inject\<close> with other than three, \<^verbatim>\<open>extract\<close> with other than two and
  \<^verbatim>\<open>flush\<close> with more than one each throw the error for an invalid number of arguments
  (InvalidArgumentCount), and change nothing.
\<close>

theorem argument_count_violations:
  assumes "API_CONFORMANCE_CHECKS E"
  shows "(2 < length as \<longrightarrow>
            startSpan E this as w = (Inl (Error ''Invalid number of arguments.''), w))
       \<and> (length bs \<noteq> 3 \<longrightarrow>
            inject E this bs w = (Inl (Error ''Invalid number of arguments.''), w))
       \<and> (length cs \<noteq> 2 \<longrightarrow>
            extract_ctx E this cs w = (Inl (Error ''Invalid number of arguments.''), w))
       \<and> (1 < length ds \<longrightarrow>
            flush E F this ds w = (Inl (Error ''Invalid number of arguments''), w))"
  using assms
  by (simp add: startSpan_def startSpan_checks_def inject_def inject_checks_def
      extract_ctx_def extract_checks_def flush_def flush_checks_def Let_def)

theorem argument_count_violations_witness:
  "startSpan checks_on (Tracer None) [Str ''a'', Str ''b'', Str ''c''] world_context_carrier
     = (Inl (Error ''Invalid number of arguments.''), world_context_carrier)
   \<and> inject checks_on (Tracer None) [Obj SpanContextObject 0, Str ''text_map''] world_context_carrier
     = (Inl (Error ''Invalid number of arguments.''), world_context_carrier)
   \<and> extract_ctx checks_on (Tracer None) [Str ''text_map''] world_context_carrier
     = (Inl (Error ''Invalid number of arguments.''), world_context_carrier)
   \<and> flush checks_on (\<lambda>a args h. (Inr Undefined, h)) (Tracer None) [Undefined, Undefined]
       world_context_carrier
     = (Inl (Error ''Invalid number of arguments''), world_context_carrier)"
  using argument_count_violations [where E = checks_on and this = "Tracer None"
      and w = world_context_carrier and F = "\<lambda>a args h. (Inr Undefined, h)"
      and as = "[Str ''a'', Str ''b'', Str ''c'']"
      and bs = "[Obj SpanContextObject 0, Str ''text_map'']"
      and cs = "[Str ''text_map'']" and ds = "[Undefined, Undefined]"]
  by (simp add: checks_on_def)

section \<open>Validation of the operation name\<close>

text \<open>
  C8. With the conformance checks enabled, \<^verbatim>\<open>startSpan('')\<close> throws the error for an
  operation name of length zero (EmptyOperationName), and \<^verbatim>\<open>startSpan({})\<close>, one
  object argument with no property at all, throws the error for a missing
  \<^verbatim>\<open>operationName\<close> (MissingOperationName); nothing else changes.
\<close>

theorem startSpan_degenerate_name:
  assumes "API_CONFORMANCE_CHECKS E" and "objs (hp w) a = Map.empty"
  shows "startSpan E this [Str ''''] w = (Inl (Error ''operation name cannot be length zero''), w)
       \<and> startSpan E this [Obj PlainObject a] w
           = (Inl (Error ''operationName is a required parameter''), w)"
  using assms by (simp add: startSpan_def startSpan_checks_def arg_def Let_def)

theorem startSpan_degenerate_name_witness:
  "startSpan checks_on (Tracer None) [Str ''''] world_empty_object
     = (Inl (Error ''operation name cannot be length zero''), world_empty_object)
   \<and> startSpan checks_on (Tracer None) [Obj PlainObject 0] world_empty_object
     = (Inl (Error ''operationName is a required parameter''), world_empty_object)"
  using startSpan_degenerate_name [where E = checks_on and w = world_empty_object and a = 0
      and this = "Tracer None"]
  by (simp add: checks_on_def world_empty_object_def)

section \<open>A null carrier\<close>



section \<open>An empty operationName field\<close>

text \<open>
  C10. In the one-object form the test is \<^verbatim>\<open>!nameOrFields.operationName\<close>, and the
  empty string is falsy: with the conformance checks enabled (the test is one of them), a
  fields object whose \<^verbatim>\<open>operationName\<close> is \<^verbatim>\<open>''\<close> is rejected with the error for a
  missing operation name, where the one-string form \<^verbatim>\<open>startSpan('')\<close> is rejected with
  the error for an empty one.
\<close>

theorem startSpan_empty_operationName_field:
  assumes "API_CONFORMANCE_CHECKS E" and "objs (hp w) a ''operationName'' = Some (Str '''')"
  shows "startSpan E this [Obj PlainObject a] w
           = (Inl (Error ''operationName is a required parameter''), w)
       \<and> startSpan E this [Str ''''] w
           = (Inl (Error ''operation name cannot be length zero''), w)"
  using assms by (simp add: startSpan_def startSpan_checks_def arg_def Let_def)

theorem startSpan_empty_operationName_field_witness:
  "startSpan checks_on (Tracer None) [Obj PlainObject 0] world_empty_name
     = (Inl (Error ''operationName is a required parameter''), world_empty_name)
   \<and> startSpan checks_on (Tracer None) [Str ''''] world_empty_name
     = (Inl (Error ''operation name cannot be length zero''), world_empty_name)"
  using startSpan_empty_operationName_field [where E = checks_on and w = world_empty_name
      and a = 0 and this = "Tracer None"]
  by (simp add: checks_on_def world_empty_name_def)

end
